theory Spec2Isabelle
  imports Main "HOL-Library.Word"
begin

section \<open>Text and integers as the hook script sees them\<close>

text \<open>
  Configuration text (host, token, mode, socket path) is a Python \<open>str\<close> read from the
  environment. It is modelled as a HOL \<open>string\<close>: a list of code points below 256.
  Within that range the conversions below follow CPython exactly; code points from 256
  upwards (among them the non-ASCII decimal digits that \<open>int()\<close> also accepts) are
  outside the type.
\<close>

definition is_digit :: "char \<Rightarrow> bool" where
  "is_digit c = (48 \<le> (of_char c :: nat) \<and> (of_char c :: nat) \<le> 57)"

definition digit_val :: "char \<Rightarrow> int" where
  "digit_val c = int (of_char c) - 48"

text \<open>
  \<open>int(s)\<close> first maps every non-ASCII white space to a blank; in the range of
  \<open>char\<close> these are U+0085 and U+00A0. The ASCII part is then read by
  \<open>PyLong_FromString\<close>, whose white space is tab, line feed, vertical tab, form feed,
  carriage return and blank.
\<close>

definition to_ascii_space :: "char \<Rightarrow> char" where
  "to_ascii_space c =
     (if (of_char c :: nat) = 133 \<or> (of_char c :: nat) = 160 then CHR '' '' else c)"

definition Py_ISSPACE :: "char \<Rightarrow> bool" where
  "Py_ISSPACE c =
     ((9 \<le> (of_char c :: nat) \<and> (of_char c :: nat) \<le> 13) \<or> (of_char c :: nat) = 32)"

fun double_underscore :: "string \<Rightarrow> bool" where
  "double_underscore (a # b # r) =
     ((a = CHR ''_'' \<and> b = CHR ''_'') \<or> double_underscore (b # r))"
| "double_underscore r = False"

definition digits_value :: "string \<Rightarrow> int" where
  "digits_value ds = foldl (\<lambda>a c. 10 * a + digit_val c) 0 ds"

text \<open>
  \<open>py_int s\<close> is Python's \<open>int(s)\<close> in base ten; \<open>None\<close> stands for
  \<open>ValueError\<close>. The literal is: optional white space, an optional sign, decimal
  digits in which single underscores may separate digits, optional white space.
  Leading zeros are accepted. The limit that recent interpreters put on the number of
  digits is not modelled.
\<close>

definition py_int :: "string \<Rightarrow> int option" where
  "py_int s =
     (let t1 = dropWhile Py_ISSPACE (map to_ascii_space s);
          neg = (case t1 of [] \<Rightarrow> False | c # r \<Rightarrow> c = CHR ''-'');
          t2 = (case t1 of [] \<Rightarrow> []
                | c # r \<Rightarrow> if c = CHR ''+'' \<or> c = CHR ''-'' then r else t1);
          body = takeWhile (\<lambda>c. is_digit c \<or> c = CHR ''_'') t2;
          rest = dropWhile (\<lambda>c. is_digit c \<or> c = CHR ''_'') t2
      in case body of
           [] \<Rightarrow> None
         | c # r \<Rightarrow>
             if c = CHR ''_'' \<or> last body = CHR ''_'' \<or> double_underscore body
                \<or> dropWhile Py_ISSPACE rest \<noteq> []
             then None
             else Some ((if neg then - 1 else 1) * digits_value (filter is_digit body)))"

text \<open>\<open>s.split(sep)\<close> for a one-character separator: never an empty list.\<close>

fun split_on :: "char \<Rightarrow> string \<Rightarrow> string list" where
  "split_on sep [] = [[]]"
| "split_on sep (c # cs) =
     (if c = sep then [] # split_on sep cs
      else (case split_on sep cs of
              [] \<Rightarrow> [[c]]
            | p # ps \<Rightarrow> (c # p) # ps))"

section \<open>The address classifier\<close>

text \<open>
  \<^verbatim>\<open>
  def is_tailscale_ip(ip):
      parts = ip.split(".")
      if len(parts) != 4:
          return False
      try:
          first, second = int(parts[0]), int(parts[1])
          return first == 100 and 64 <= second <= 127
      except ValueError:
          return False
  \<close>
\<close>

definition is_tailscale_ip :: "string \<Rightarrow> bool" where
  "is_tailscale_ip ip =
     (let parts = split_on CHR ''.'' ip
      in if length parts \<noteq> 4 then False
         else (case py_int (parts ! 0) of
                 None \<Rightarrow> False
               | Some first \<Rightarrow>
                   (case py_int (parts ! 1) of
                      None \<Rightarrow> False
                    | Some second \<Rightarrow> first = 100 \<and> 64 \<le> second \<and> second \<le> 127)))"


section \<open>Bytes and decoded text\<close>

text \<open>
  What travels over a socket is \<open>bytes\<close>. \<open>bytes.decode()\<close> yields a Python
  \<open>str\<close> that may hold any Unicode scalar value, so decoded text is a list of code
  points. \<open>codes\<close> embeds a literal of the script.
\<close>

type_synonym byte = "8 word"
type_synonym bytes = "byte list"
type_synonym ustr = "nat list"

definition codes :: "string \<Rightarrow> ustr" where
  "codes s = map of_char s"

definition cont :: "byte \<Rightarrow> bool" where
  "cont b = (0x80 \<le> b \<and> b \<le> 0xBF)"

definition in_range :: "byte \<Rightarrow> byte \<Rightarrow> byte \<Rightarrow> bool" where
  "in_range lo hi b = (lo \<le> b \<and> b \<le> hi)"

text \<open>
  The second byte of a three-byte and of a four-byte sequence is restricted by the lead
  byte, which excludes overlong forms, surrogates and values above U+10FFFF.
\<close>

definition second3 :: "byte \<Rightarrow> byte \<Rightarrow> bool" where
  "second3 b0 b1 =
     (if b0 = 0xE0 then in_range 0xA0 0xBF b1
      else if b0 = 0xED then in_range 0x80 0x9F b1
      else cont b1)"

definition second4 :: "byte \<Rightarrow> byte \<Rightarrow> bool" where
  "second4 b0 b1 =
     (if b0 = 0xF0 then in_range 0x90 0xBF b1
      else if b0 = 0xF4 then in_range 0x80 0x8F b1
      else cont b1)"

definition low6 :: "byte \<Rightarrow> nat" where
  "low6 b = unat b mod 64"

text \<open>
  \<open>utf8_decode b\<close> is \<open>b.decode()\<close> (UTF-8, strict); \<open>None\<close> stands for
  \<open>UnicodeDecodeError\<close>.
\<close>

fun utf8_decode :: "bytes \<Rightarrow> ustr option" where
  "utf8_decode [] = Some []"
| "utf8_decode (b0 # bs) =
     (if b0 < 0x80 then map_option ((#) (unat b0)) (utf8_decode bs)
      else if in_range 0xC2 0xDF b0 then
        (case bs of
           b1 # r \<Rightarrow>
             if cont b1
             then map_option ((#) ((unat b0 mod 32) * 64 + low6 b1)) (utf8_decode r)
             else None
         | _ \<Rightarrow> None)
      else if in_range 0xE0 0xEF b0 then
        (case bs of
           b1 # b2 # r \<Rightarrow>
             if second3 b0 b1 \<and> cont b2
             then map_option ((#) ((unat b0 mod 16) * 4096 + low6 b1 * 64 + low6 b2))
                    (utf8_decode r)
             else None
         | _ \<Rightarrow> None)
      else if in_range 0xF0 0xF4 b0 then
        (case bs of
           b1 # b2 # b3 # r \<Rightarrow>
             if second4 b0 b1 \<and> cont b2 \<and> cont b3
             then map_option
                    ((#) ((unat b0 mod 8) * 262144 + low6 b1 * 4096 + low6 b2 * 64 + low6 b3))
                    (utf8_decode r)
             else None
         | _ \<Rightarrow> None)
      else None)"

text \<open>
  \<open>s.encode()\<close> for configuration text: a code point below 128 is one byte, one from
  128 to 255 is two.
\<close>

definition utf8_encode :: "string \<Rightarrow> bytes" where
  "utf8_encode s =
     concat (map (\<lambda>c. if (of_char c :: nat) < 128 then [of_char c]
                       else [of_nat (192 + of_char c div 64), of_nat (128 + of_char c mod 64)]) s)"

text \<open>The characters for which \<open>str.isspace\<close> holds, which \<open>str.strip()\<close> removes.\<close>

definition py_isspace :: "nat \<Rightarrow> bool" where
  "py_isspace c =
     ((9 \<le> c \<and> c \<le> 13) \<or> (28 \<le> c \<and> c \<le> 32) \<or> c = 133 \<or> c = 160 \<or> c = 5760
      \<or> (8192 \<le> c \<and> c \<le> 8202) \<or> c = 8232 \<or> c = 8233 \<or> c = 8239 \<or> c = 8287
      \<or> c = 12288)"

definition py_strip :: "ustr \<Rightarrow> ustr" where
  "py_strip s = rev (dropWhile py_isspace (rev (dropWhile py_isspace s)))"

section \<open>JSON values\<close>

text \<open>
  What \<open>json.loads\<close> returns and \<open>json.dumps\<close> takes. \<open>JNull\<close> is Python's
  \<open>None\<close>; a float is kept as its 64 bits; a dictionary is the list of its items in
  insertion order.
\<close>

datatype json =
    JNull
  | JBool bool
  | JInt int
  | JFloat "64 word"
  | JStr ustr
  | JList "json list"
  | JDict "(ustr \<times> json) list"

text \<open>Truth value testing: \<open>if v:\<close>. A float is false when it is plus or minus zero.\<close>

fun truthy :: "json \<Rightarrow> bool" where
  "truthy JNull = False"
| "truthy (JBool b) = b"
| "truthy (JInt i) = (i \<noteq> 0)"
| "truthy (JFloat w) = (push_bit 1 w \<noteq> 0)"
| "truthy (JStr s) = (s \<noteq> [])"
| "truthy (JList xs) = (xs \<noteq> [])"
| "truthy (JDict kvs) = (kvs \<noteq> [])"

text \<open>\<open>d.get(key, default)\<close> on the items of a dictionary.\<close>

definition dict_get :: "(ustr \<times> json) list \<Rightarrow> string \<Rightarrow> json \<Rightarrow> json" where
  "dict_get kvs k dflt = (case map_of kvs (codes k) of None \<Rightarrow> dflt | Some v \<Rightarrow> v)"


section \<open>Exceptions, sockets and the process state\<close>

text \<open>
  The exceptions the script can meet. \<open>socket.timeout\<close>, \<open>FileNotFoundError\<close>,
  \<open>ConnectionRefusedError\<close> and \<open>PermissionError\<close> are subclasses of
  \<open>OSError\<close> (\<open>socket.error\<close> is \<open>OSError\<close>); \<open>JSONDecodeError\<close>,
  \<open>UnicodeError\<close> and \<open>UnicodeDecodeError\<close> are subclasses of \<open>ValueError\<close>,
  none of them of \<open>JSONDecodeError\<close>. The constructor \<open>ValueError\<close> stands for a
  \<open>ValueError\<close> that is none of these.
\<close>

datatype oserror =
    FileNotFoundError
  | ConnectionRefusedError
  | SocketTimeout
  | PermissionError
  | OtherOSError

datatype exn =
    OSError oserror
  | JSONDecodeError
  | UnicodeDecodeError
  | UnboundLocalError
  | AttributeError
  | ValueError
  | OverflowError
  | TypeError
  | UnicodeError
  | RecursionError

datatype family = AF_UNIX | AF_INET

datatype address = UnixAddr string | InetAddr string int

text \<open>The calls made on sockets, each with the socket it is made on.\<close>

datatype action =
    Socket nat family
  | Connect nat address
  | SendAll nat bytes
  | Recv nat nat
  | Close nat

datatype received = Data bytes | RecvFails oserror

text \<open>
  How \<open>subprocess.run\<close> ends: the tool runs to its end, the time runs out, or an
  exception is raised (\<open>FileNotFoundError\<close> when the tool is not installed,
  \<open>PermissionError\<close> when it is there and may not be run, and so on).
\<close>

datatype run_outcome = Completed | TimeoutExpired | RunRaises exn

text \<open>What \<open>json.loads\<close> does with a text: a value, \<open>JSONDecodeError\<close>, or
  \<open>RecursionError\<close> when the document is nested too deep.\<close>

datatype parsed = Parsed json | NotJSON | TooDeep

text \<open>
  The surroundings of one run of the script: the file system, the \<open>dns-sd\<close> tool, the
  peers, and the two library functions that the script applies to the event record and
  to the reply. \<open>sendall_outcome n\<close> and \<open>recv_outcome n\<close> are the outcomes of the
  \<open>n\<close>-th \<open>sendall\<close> and \<open>recv\<close> of the run (counted from 0); whether a call times
  out is decided here. \<open>socket_outcome n\<close> is the outcome of creating a socket when
  \<open>n\<close> sockets have been created. \<open>timeout_max\<close> is the largest number of seconds that
  \<open>settimeout\<close> accepts on the platform. \<open>idna_encodes\<close> says whether a host name
  with non-ASCII characters passes the IDNA codec; \<open>resolve_outcome\<close> is the outcome
  of resolving a host name and \<open>connect_outcome\<close> that of the connection itself.
  \<open>json_dumps\<close> is \<open>json.dumps(state).encode()\<close>; \<open>json_loads\<close> is
  \<open>json.loads\<close>.
\<close>

record env =
  path_exists :: "string \<Rightarrow> bool"
  dns_sd :: "nat \<Rightarrow> run_outcome"
  socket_outcome :: "nat \<Rightarrow> oserror option"
  timeout_max :: int
  idna_encodes :: "string \<Rightarrow> bool"
  resolve_outcome :: "string \<Rightarrow> oserror option"
  connect_outcome :: "address \<Rightarrow> oserror option"
  sendall_outcome :: "nat \<Rightarrow> oserror option"
  recv_outcome :: "nat \<Rightarrow> received"
  json_dumps :: "json \<Rightarrow> bytes"
  json_loads :: "ustr \<Rightarrow> parsed"

text \<open>
  \<^verbatim>\<open>
  class ConnectionConfig:
      def __init__(self):
          self.socket_path = "/tmp/claude-nook.sock"
          self.host = os.environ.get("CLAUDE_NOOK_HOST", "")
          self.port = int(os.environ.get("CLAUDE_NOOK_PORT", "4851"))
          self.token = os.environ.get("CLAUDE_NOOK_TOKEN", "")
          self.mode = os.environ.get("CLAUDE_NOOK_MODE", "auto")
          self.timeout = int(os.environ.get("CLAUDE_NOOK_TIMEOUT", "300"))
          self.debug = os.environ.get("CLAUDE_NOOK_DEBUG", "0") == "1"
          self._discovered_host = None
          self._discovery_attempted = False
  \<close>
  The Island variant has the same fields without the last two, and its host defaults to
  \<open>127.0.0.1\<close>.
\<close>

record config =
  socket_path :: string
  host :: string
  port :: int
  token :: string
  mode :: string
  timeout :: int
  debug :: bool
  discovered_host :: "string option"
  discovery_attempted :: bool

text \<open>
  The state of one process: the global \<open>config\<close> object, the socket calls made so far,
  the sockets created and not closed, and the counters of the calls that the
  surroundings answer.
\<close>

record world =
  cfg :: config
  calls :: "action list"
  open_socks :: "nat list"
  next_sock :: nat
  sends_done :: nat
  recvs_done :: nat
  discoveries :: nat

text \<open>
  A computation changes the state and returns a value or raises; \<open>None\<close> is a
  computation that never returns.
\<close>

type_synonym 'a comp = "world \<Rightarrow> ((exn + 'a) \<times> world) option"

definition ret :: "'a \<Rightarrow> 'a comp" where
  "ret x w = Some (Inr x, w)"

definition throw :: "exn \<Rightarrow> 'a comp" where
  "throw x w = Some (Inl x, w)"

definition bind :: "'a comp \<Rightarrow> ('a \<Rightarrow> 'b comp) \<Rightarrow> 'b comp" where
  "bind m f w =
     (case m w of
        None \<Rightarrow> None
      | Some (Inl x, w1) \<Rightarrow> Some (Inl x, w1)
      | Some (Inr a, w1) \<Rightarrow> f a w1)"

text \<open>\<open>try: m  except ...: h\<close>, the handler \<open>h\<close> deciding which exceptions it takes.\<close>

definition try_except :: "'a comp \<Rightarrow> (exn \<Rightarrow> 'a comp) \<Rightarrow> 'a comp" where
  "try_except m h w =
     (case m w of
        None \<Rightarrow> None
      | Some (Inl x, w1) \<Rightarrow> h x w1
      | Some (Inr a, w1) \<Rightarrow> Some (Inr a, w1))"

definition get_cfg :: "config comp" where
  "get_cfg w = Some (Inr (cfg w), w)"

text \<open>
  \<open>socket.socket(family, SOCK_STREAM)\<close>: a new socket, or an \<open>OSError\<close> when none
  can be had; only a socket that was created is listed among the calls.
\<close>

definition sock_socket :: "env \<Rightarrow> family \<Rightarrow> nat comp" where
  "sock_socket e fam w =
     (case socket_outcome e (next_sock w) of
        Some x \<Rightarrow> Some (Inl (OSError x), w)
      | None \<Rightarrow>
          Some (Inr (next_sock w),
                w\<lparr>calls := calls w @ [Socket (next_sock w) fam],
                  open_socks := next_sock w # open_socks w,
                  next_sock := Suc (next_sock w)\<rparr>))"

text \<open>
  \<open>sock.settimeout(config.timeout)\<close> refuses a negative number with
  \<open>ValueError\<close> and one that is too large with \<open>OverflowError\<close>. It is not listed
  among the calls. \<open>sock.settimeout(0.5)\<close> cannot fail and is left out.
\<close>

definition sock_settimeout :: "env \<Rightarrow> nat \<Rightarrow> int \<Rightarrow> unit comp" where
  "sock_settimeout e sock t =
     (if t < 0 then throw ValueError
      else if timeout_max e < t then throw OverflowError
      else ret ())"

text \<open>
  What \<open>sock.connect(address)\<close> raises, if anything. For a path: \<open>ValueError\<close> when
  it holds a null character, else the outcome of the connection. For a pair of host and
  port, in this order: the host name is converted (\<open>UnicodeError\<close> when it has
  non-ASCII characters and the IDNA codec refuses it, \<open>TypeError\<close> when it holds a
  null character); the port must fit a C \<open>int\<close> (\<open>OverflowError\<close>); the host is
  resolved (an \<open>OSError\<close>); the port must lie in 0..65535 (\<open>OverflowError\<close>); then
  the connection is attempted (an \<open>OSError\<close>).
\<close>

definition host_arg_error :: "env \<Rightarrow> string \<Rightarrow> exn option" where
  "host_arg_error e h =
     (if filter (\<lambda>c. 127 < (of_char c :: nat)) h = [] then
        (if CHR 0x00 \<in> set h then Some TypeError else None)
      else if idna_encodes e h then
        (if CHR 0x00 \<in> set h then Some TypeError else None)
      else Some UnicodeError)"

definition connect_result :: "env \<Rightarrow> address \<Rightarrow> exn option" where
  "connect_result e addr =
     (case addr of
        UnixAddr p \<Rightarrow>
          if CHR 0x00 \<in> set p then Some ValueError
          else map_option OSError (connect_outcome e addr)
      | InetAddr h p \<Rightarrow>
          (case host_arg_error e h of
             Some x \<Rightarrow> Some x
           | None \<Rightarrow>
               if p < - 2147483648 \<or> 2147483647 < p then Some OverflowError
               else
                 (case resolve_outcome e h of
                    Some x \<Rightarrow> Some (OSError x)
                  | None \<Rightarrow>
                      if p < 0 \<or> 65535 < p then Some OverflowError
                      else map_option OSError (connect_outcome e addr))))"

definition sock_connect :: "env \<Rightarrow> nat \<Rightarrow> address \<Rightarrow> unit comp" where
  "sock_connect e sock addr w =
     Some (case connect_result e addr of None \<Rightarrow> Inr () | Some x \<Rightarrow> Inl x,
           w\<lparr>calls := calls w @ [Connect sock addr]\<rparr>)"

definition sock_sendall :: "env \<Rightarrow> nat \<Rightarrow> bytes \<Rightarrow> unit comp" where
  "sock_sendall e sock b w =
     Some (case sendall_outcome e (sends_done w) of None \<Rightarrow> Inr () | Some x \<Rightarrow> Inl (OSError x),
           w\<lparr>calls := calls w @ [SendAll sock b], sends_done := Suc (sends_done w)\<rparr>)"

definition sock_recv :: "env \<Rightarrow> nat \<Rightarrow> nat \<Rightarrow> bytes comp" where
  "sock_recv e sock bufsize w =
     Some (case recv_outcome e (recvs_done w) of Data b \<Rightarrow> Inr b | RecvFails x \<Rightarrow> Inl (OSError x),
           w\<lparr>calls := calls w @ [Recv sock bufsize], recvs_done := Suc (recvs_done w)\<rparr>)"

definition sock_close :: "nat \<Rightarrow> unit comp" where
  "sock_close sock w =
     Some (Inr (), w\<lparr>calls := calls w @ [Close sock], open_socks := removeAll sock (open_socks w)\<rparr>)"

text \<open>\<open>b.decode()\<close> and \<open>json.loads(s)\<close> as computations.\<close>

definition decode :: "bytes \<Rightarrow> ustr comp" where
  "decode b = (case utf8_decode b of None \<Rightarrow> throw UnicodeDecodeError | Some s \<Rightarrow> ret s)"

definition loads :: "env \<Rightarrow> ustr \<Rightarrow> json comp" where
  "loads e s =
     (case json_loads e s of
        Parsed v \<Rightarrow> ret v
      | NotJSON \<Rightarrow> throw JSONDecodeError
      | TooDeep \<Rightarrow> throw RecursionError)"


section \<open>The host resolver\<close>

text \<open>
  \<^verbatim>\<open>
  def discover_via_bonjour(timeout=2):
      try:
          result = subprocess.run(["dns-sd", "-B", "_claudenook._tcp", "local."],
                                  capture_output=True, text=True, timeout=timeout)
      except (subprocess.TimeoutExpired, FileNotFoundError):
          pass
      return None, None
  \<close>
  The result of the browse is never read. \<open>TimeoutExpired\<close> and
  \<open>FileNotFoundError\<close> are taken; any other exception of \<open>subprocess.run\<close> leaves
  the function.
\<close>

definition discover_via_bonjour :: "run_outcome \<Rightarrow> exn + string option \<times> int option" where
  "discover_via_bonjour r =
     (case r of
        Completed \<Rightarrow> Inr (None, None)
      | TimeoutExpired \<Rightarrow> Inr (None, None)
      | RunRaises x \<Rightarrow> if x = OSError FileNotFoundError then Inr (None, None) else Inl x)"

definition bonjour :: "env \<Rightarrow> nat \<Rightarrow> exn + string option \<times> int option" where
  "bonjour e n = discover_via_bonjour (dns_sd e n)"

text \<open>
  \<^verbatim>\<open>
  def get_host(self):
      if self.host:
          return self.host
      if not self._discovery_attempted:
          self._discovery_attempted = True
          discovered_host, discovered_port = discover_via_bonjour()
          if discovered_host:
              self._discovered_host = discovered_host
              if discovered_port:
                  self.port = discovered_port
              self.log(...)
      return self._discovered_host or "127.0.0.1"
  \<close>
  The discovery function is a parameter: \<open>discover n\<close> is what its \<open>n\<close>-th call of
  the run returns or raises, and \<open>discoveries\<close> counts the calls. An empty host and a
  port of zero are false in Python, as \<open>None\<close> is. When the discovery raises, the
  flag is already set.
\<close>

definition host_or_loopback :: "config \<Rightarrow> string" where
  "host_or_loopback c =
     (case discovered_host c of
        None \<Rightarrow> ''127.0.0.1''
      | Some h \<Rightarrow> if h = [] then ''127.0.0.1'' else h)"

definition note_discovery :: "string option \<times> int option \<Rightarrow> config \<Rightarrow> config" where
  "note_discovery found c =
     (case fst found of
        None \<Rightarrow> c
      | Some h \<Rightarrow>
          if h = [] then c
          else c\<lparr>discovered_host := Some h,
                 port := (case snd found of
                            None \<Rightarrow> port c
                          | Some p \<Rightarrow> if p = 0 then port c else p)\<rparr>)"

definition get_host :: "(nat \<Rightarrow> exn + string option \<times> int option) \<Rightarrow> string comp" where
  "get_host discover w =
     (if host (cfg w) \<noteq> [] then Some (Inr (host (cfg w)), w)
      else if discovery_attempted (cfg w) then Some (Inr (host_or_loopback (cfg w)), w)
      else
        (case discover (discoveries w) of
           Inl x \<Rightarrow>
             Some (Inl x,
                   w\<lparr>cfg := (cfg w)\<lparr>discovery_attempted := True\<rparr>,
                     discoveries := Suc (discoveries w)\<rparr>)
         | Inr found \<Rightarrow>
             Some (Inr (host_or_loopback
                          (note_discovery found ((cfg w)\<lparr>discovery_attempted := True\<rparr>))),
                   w\<lparr>cfg := note_discovery found ((cfg w)\<lparr>discovery_attempted := True\<rparr>),
                     discoveries := Suc (discoveries w)\<rparr>)))"

section \<open>The transports\<close>

text \<open>
  The \<open>except\<close> clauses that close both transports take every \<open>OSError\<close>
  (among them \<open>socket.timeout\<close>, \<open>FileNotFoundError\<close> and
  \<open>ConnectionRefusedError\<close>) and \<open>json.JSONDecodeError\<close>, and return \<open>None\<close>.
  Any other exception leaves the function.
\<close>

fun except_clauses :: "exn \<Rightarrow> json comp" where
  "except_clauses (OSError x) = ret JNull"
| "except_clauses JSONDecodeError = ret JNull"
| "except_clauses x = throw x"

text \<open>
  The end of both transports:
  \<^verbatim>\<open>
        sock.sendall(json.dumps(state).encode())
        if wait_for_response:
            response = sock.recv(4096)
            sock.close()
            if response:
                config.log(f"Received response: {response.decode()}")
                return json.loads(response.decode())
        else:
            sock.close()
        return None
  \<close>
  The argument of \<open>config.log\<close> is built whether or not the debug flag is set.
\<close>

definition send_payload :: "env \<Rightarrow> nat \<Rightarrow> json \<Rightarrow> bool \<Rightarrow> json comp" where
  "send_payload e sock state wait_for_response =
     bind (sock_sendall e sock (json_dumps e state)) (\<lambda>_.
     if wait_for_response then
       bind (sock_recv e sock 4096) (\<lambda>response.
       bind (sock_close sock) (\<lambda>_.
       if response \<noteq> [] then
         bind (decode response) (\<lambda>logged.
         bind (decode response) (\<lambda>text. loads e text))
       else ret JNull))
     else bind (sock_close sock) (\<lambda>_. ret JNull))"

text \<open>
  \<^verbatim>\<open>
  def send_via_socket(state, wait_for_response=False):
      try:
          sock = socket.socket(socket.AF_UNIX, socket.SOCK_STREAM)
          sock.settimeout(config.timeout)
          sock.connect(config.socket_path)
          ... the end shown above ...
      except FileNotFoundError: return None
      except (socket.error, OSError) as e: return None
      except json.JSONDecodeError as e: return None
  \<close>
\<close>

definition send_via_socket :: "env \<Rightarrow> json \<Rightarrow> bool \<Rightarrow> json comp" where
  "send_via_socket e state wait_for_response =
     try_except
       (bind (sock_socket e AF_UNIX) (\<lambda>sock.
        bind get_cfg (\<lambda>c.
        bind (sock_settimeout e sock (timeout c)) (\<lambda>_.
        bind (sock_connect e sock (UnixAddr (socket_path c))) (\<lambda>_.
        send_payload e sock state wait_for_response)))))
       except_clauses"

text \<open>
  The wait for the reply to \<open>AUTH\<close>:
  \<^verbatim>\<open>
            auth_response = b""
            while b"\n" not in auth_response:
                chunk = sock.recv(64)
                if not chunk:
                    sock.close()
                    return None
                auth_response += chunk
  \<close>
  The result \<open>None\<close> stands for the \<open>return None\<close> inside the loop. A peer that
  keeps sending without a line feed keeps the loop running: the computation is partial.
\<close>

partial_function (option) read_auth_response ::
  "env \<Rightarrow> nat \<Rightarrow> bytes \<Rightarrow> world \<Rightarrow> ((exn + bytes option) \<times> world) option" where
  "read_auth_response e sock auth_response w =
     (if 10 \<in> set auth_response then Some (Inr (Some auth_response), w)
      else
        (case sock_recv e sock 64 w of
           None \<Rightarrow> None
         | Some (Inl x, w1) \<Rightarrow> Some (Inl x, w1)
         | Some (Inr chunk, w1) \<Rightarrow>
             if chunk = [] then bind (sock_close sock) (\<lambda>_. ret None) w1
             else read_auth_response e sock (auth_response @ chunk) w1))"

text \<open>
  The exchange after the connection is trusted or authenticated is \<open>send_payload\<close>;
  before it, in the Nook script:
  \<^verbatim>\<open>
  def send_via_tcp(state, wait_for_response=False):
      host = config.get_host()
      try:
          sock = socket.socket(socket.AF_INET, socket.SOCK_STREAM)
          sock.settimeout(config.timeout)
          sock.connect((host, config.port))
          sock.settimeout(0.5)
          auto_trusted = False
          try:
              initial_response = sock.recv(64)
              if initial_response and initial_response.decode().strip() == "OK":
                  auto_trusted = True
          except socket.timeout:
              pass
          sock.settimeout(config.timeout)
          if not auto_trusted:
              if not config.token:
                  sock.close()
                  return None
              auth_line = f"AUTH {config.token}\n"
              sock.sendall(auth_line.encode())
              ... the loop shown above ...
              auth_result = auth_response.decode().strip()
              if auth_result != "OK":
                  sock.close()
                  return None
          ... the end shown above ...
      except socket.timeout: return None
      except ConnectionRefusedError: return None
      except (socket.error, OSError) as e: return None
      except json.JSONDecodeError as e: return None
  \<close>
\<close>

text \<open>
  \<open>authenticate\<close> is the part from \<open>auth_line = ...\<close> to the check of
  \<open>auth_result\<close>, followed by the end shown above; both scripts have it word for
  word.
\<close>

definition auth_line :: "string \<Rightarrow> bytes" where
  "auth_line tok = utf8_encode (''AUTH '' @ tok @ [CHR 0x0A])"

definition authenticate :: "env \<Rightarrow> nat \<Rightarrow> config \<Rightarrow> json \<Rightarrow> bool \<Rightarrow> json comp" where
  "authenticate e sock c state wait_for_response =
     bind (sock_sendall e sock (auth_line (token c))) (\<lambda>_.
     bind (read_auth_response e sock []) (\<lambda>reply.
     case reply of
       None \<Rightarrow> ret JNull
     | Some auth_response \<Rightarrow>
         bind (decode auth_response) (\<lambda>auth_result.
         if py_strip auth_result = codes ''OK''
         then send_payload e sock state wait_for_response
         else bind (sock_close sock) (\<lambda>_. ret JNull))))"

definition send_via_tcp :: "env \<Rightarrow> json \<Rightarrow> bool \<Rightarrow> json comp" where
  "send_via_tcp e state wait_for_response =
     bind (get_host (bonjour e)) (\<lambda>h.
     try_except
       (bind (sock_socket e AF_INET) (\<lambda>sock.
        bind get_cfg (\<lambda>c.
        bind (sock_settimeout e sock (timeout c)) (\<lambda>_.
        bind (sock_connect e sock (InetAddr h (port c))) (\<lambda>_.
        bind (try_except
                (bind (sock_recv e sock 64) (\<lambda>initial_response.
                 if initial_response = [] then ret False
                 else bind (decode initial_response) (\<lambda>s. ret (py_strip s = codes ''OK''))))
                (\<lambda>x. if x = OSError SocketTimeout then ret False else throw x))
          (\<lambda>auto_trusted.
        bind (sock_settimeout e sock (timeout c)) (\<lambda>_.
        if auto_trusted then send_payload e sock state wait_for_response
        else if token c = [] then bind (sock_close sock) (\<lambda>_. ret JNull)
        else authenticate e sock c state wait_for_response)))))))
       except_clauses)"

text \<open>
  The Island script has no greeting and no discovery:
  \<^verbatim>\<open>
  def send_via_tcp(state, wait_for_response=False):
      if not config.token:
          return None
      try:
          sock = socket.socket(socket.AF_INET, socket.SOCK_STREAM)
          sock.settimeout(config.timeout)
          sock.connect((config.host, config.port))
          auth_line = f"AUTH {config.token}\n"
          sock.sendall(auth_line.encode())
          ... the loop, the check of the reply, the end and the handlers as above ...
  \<close>
\<close>

definition send_via_tcp_island :: "env \<Rightarrow> json \<Rightarrow> bool \<Rightarrow> json comp" where
  "send_via_tcp_island e state wait_for_response =
     bind get_cfg (\<lambda>c.
     if token c = [] then ret JNull
     else
       try_except
         (bind (sock_socket e AF_INET) (\<lambda>sock.
          bind (sock_settimeout e sock (timeout c)) (\<lambda>_.
          bind (sock_connect e sock (InetAddr (host c) (port c))) (\<lambda>_.
          authenticate e sock c state wait_for_response))))
         except_clauses)"

section \<open>The connection strategy\<close>

text \<open>
  \<^verbatim>\<open>
  def send_event(state, wait_for_response=False):
      if config.mode == "socket":
          return send_via_socket(state, wait_for_response)
      elif config.mode == "tcp":
          return send_via_tcp(state, wait_for_response)
      else:
          if os.path.exists(config.socket_path):
              result = send_via_socket(state, wait_for_response)
              if result is not None or not wait_for_response:
                  return result
          host = config.get_host()
          if host and (config.token or is_tailscale_ip(host)):
              return send_via_tcp(state, wait_for_response)
          return result
  \<close>
  The local variable \<open>result\<close> is bound only inside the first \<open>if\<close>; it is modelled
  as an option, and reading it while it is unbound raises \<open>UnboundLocalError\<close>.
\<close>

definition read_local :: "json option \<Rightarrow> json comp" where
  "read_local v = (case v of None \<Rightarrow> throw UnboundLocalError | Some r \<Rightarrow> ret r)"

definition remote_fallback :: "env \<Rightarrow> json \<Rightarrow> bool \<Rightarrow> json option \<Rightarrow> json comp" where
  "remote_fallback e state wait_for_response result =
     bind (get_host (bonjour e)) (\<lambda>h.
     bind get_cfg (\<lambda>c.
     if (if h = [] then False else if token c = [] then is_tailscale_ip h else True)
     then send_via_tcp e state wait_for_response
     else read_local result))"

definition send_event :: "env \<Rightarrow> json \<Rightarrow> bool \<Rightarrow> json comp" where
  "send_event e state wait_for_response =
     bind get_cfg (\<lambda>c.
     if mode c = ''socket'' then send_via_socket e state wait_for_response
     else if mode c = ''tcp'' then send_via_tcp e state wait_for_response
     else if path_exists e (socket_path c) then
       bind (send_via_socket e state wait_for_response) (\<lambda>result.
       if result = JNull then
         (if wait_for_response then remote_fallback e state wait_for_response (Some result)
          else ret result)
       else ret result)
     else remote_fallback e state wait_for_response None)"

text \<open>
  The Island script:
  \<^verbatim>\<open>
      else:
          result = send_via_socket(state, wait_for_response)
          if result is not None or not wait_for_response:
              pass
          if config.token:
              if not os.path.exists(config.socket_path):
                  return send_via_tcp(state, wait_for_response)
          return result
  \<close>
\<close>

definition send_event_island :: "env \<Rightarrow> json \<Rightarrow> bool \<Rightarrow> json comp" where
  "send_event_island e state wait_for_response =
     bind get_cfg (\<lambda>c.
     if mode c = ''socket'' then send_via_socket e state wait_for_response
     else if mode c = ''tcp'' then send_via_tcp_island e state wait_for_response
     else
       bind (send_via_socket e state wait_for_response) (\<lambda>result.
       if token c = [] then ret result
       else if path_exists e (socket_path c) then ret result
       else send_via_tcp_island e state wait_for_response))"

section \<open>The permission request\<close>

text \<open>
  What the process leaves behind: the document printed on standard output, if any, and
  the exit status.
\<close>

record outcome =
  printed :: "json option"
  exit_status :: int

definition hook_output :: "(ustr \<times> json) list \<Rightarrow> json" where
  "hook_output decision =
     JDict [(codes ''hookSpecificOutput'',
             JDict [(codes ''hookEventName'', JStr (codes ''PermissionRequest'')),
                    (codes ''decision'', JDict decision)])]"

text \<open>
  \<^verbatim>\<open>
        response = send_event(state, wait_for_response=True)
        if response:
            decision = response.get("decision", "ask")
            reason = response.get("reason", "")
            if decision == "allow":
                output = {"hookSpecificOutput": {"hookEventName": "PermissionRequest",
                                                 "decision": {"behavior": "allow"}}}
                print(json.dumps(output))
                sys.exit(0)
            elif decision == "deny":
                output = {"hookSpecificOutput": {"hookEventName": "PermissionRequest",
                    "decision": {"behavior": "deny",
                                 "message": reason or "Denied by user via Claude Nook"}}}
                print(json.dumps(output))
                sys.exit(0)
        sys.exit(0)
  \<close>
  \<open>permission_outcome\<close> is the part after the call of \<open>send_event\<close>; its first
  argument is the text that stands in for a missing reason, the only difference between
  the two scripts. A reply that is true and not a dictionary has no \<open>get\<close>.
\<close>

definition permission_outcome :: "string \<Rightarrow> json \<Rightarrow> exn + outcome" where
  "permission_outcome denied_by response =
     (if truthy response then
        (case response of
           JDict kvs \<Rightarrow>
             let decision = dict_get kvs ''decision'' (JStr (codes ''ask''));
                 reason = dict_get kvs ''reason'' (JStr [])
             in if decision = JStr (codes ''allow'') then
                  Inr \<lparr>printed = Some (hook_output [(codes ''behavior'', JStr (codes ''allow''))]),
                       exit_status = 0\<rparr>
                else if decision = JStr (codes ''deny'') then
                  Inr \<lparr>printed = Some (hook_output
                         [(codes ''behavior'', JStr (codes ''deny'')),
                          (codes ''message'',
                           if truthy reason then reason else JStr (codes denied_by))]),
                       exit_status = 0\<rparr>
                else Inr \<lparr>printed = None, exit_status = 0\<rparr>
         | _ \<Rightarrow> Inl AttributeError)
      else Inr \<lparr>printed = None, exit_status = 0\<rparr>)"

definition finish :: "exn + outcome \<Rightarrow> outcome comp" where
  "finish r = (case r of Inl x \<Rightarrow> throw x | Inr out \<Rightarrow> ret out)"

definition main_permission_request :: "env \<Rightarrow> json \<Rightarrow> outcome comp" where
  "main_permission_request e state =
     bind (send_event e state True) (\<lambda>response.
     finish (permission_outcome ''Denied by user via Claude Nook'' response))"

definition main_permission_request_island :: "env \<Rightarrow> json \<Rightarrow> outcome comp" where
  "main_permission_request_island e state =
     bind (send_event_island e state True) (\<lambda>response.
     finish (permission_outcome ''Denied by user via ClaudeIsland'' response))"

section \<open>Observations and sample runs\<close>




text \<open>
  The configuration that \<open>ConnectionConfig()\<close> builds when no variable of the
  environment is set, and the state in which a process starts.
\<close>

definition default_config :: config where
  "default_config =
     \<lparr>socket_path = ''/tmp/claude-nook.sock'', host = [], port = 4851, token = [],
      mode = ''auto'', timeout = 300, debug = False,
      discovered_host = None, discovery_attempted = False\<rparr>"

definition start :: "config \<Rightarrow> world" where
  "start c =
     \<lparr>cfg = c, calls = [], open_socks = [], next_sock = 0,
      sends_done = 0, recvs_done = 0, discoveries = 0\<rparr>"

text \<open>
  Sample surroundings. In \<open>nobody_home\<close> the socket file is absent, \<open>dns-sd\<close> is not
  installed and every connection is refused. In \<open>silent_peer\<close> the socket file exists,
  connections and sends succeed, and every read times out. \<open>talking_peer rs\<close> is
  \<open>silent_peer\<close> with the reads answered by \<open>rs\<close> in turn. In all of them sockets
  can be created, every host name converts and resolves and timeouts up to 2147483
  seconds are accepted. The
  event record is serialised to \<open>{}\<close> and no reply parses; the scripts never look
  into either.
\<close>

definition nobody_home :: env where
  "nobody_home =
     \<lparr>path_exists = (\<lambda>p. False), dns_sd = (\<lambda>n. RunRaises (OSError FileNotFoundError)),
      socket_outcome = (\<lambda>n. None), timeout_max = 2147483, idna_encodes = (\<lambda>h. True), resolve_outcome = (\<lambda>h. None),
      connect_outcome =
        (\<lambda>a. case a of UnixAddr p \<Rightarrow> Some FileNotFoundError
                       | InetAddr h p \<Rightarrow> Some ConnectionRefusedError),
      sendall_outcome = (\<lambda>n. None), recv_outcome = (\<lambda>n. RecvFails SocketTimeout),
      json_dumps = (\<lambda>v. [0x7B, 0x7D]), json_loads = (\<lambda>s. NotJSON)\<rparr>"

definition silent_peer :: env where
  "silent_peer =
     \<lparr>path_exists = (\<lambda>p. True), dns_sd = (\<lambda>n. RunRaises (OSError FileNotFoundError)),
      socket_outcome = (\<lambda>n. None), timeout_max = 2147483, idna_encodes = (\<lambda>h. True), resolve_outcome = (\<lambda>h. None),
      connect_outcome = (\<lambda>a. None),
      sendall_outcome = (\<lambda>n. None), recv_outcome = (\<lambda>n. RecvFails SocketTimeout),
      json_dumps = (\<lambda>v. [0x7B, 0x7D]), json_loads = (\<lambda>s. NotJSON)\<rparr>"

definition talking_peer :: "received list \<Rightarrow> env" where
  "talking_peer rs =
     silent_peer\<lparr>recv_outcome := (\<lambda>n. if n < length rs then rs ! n else RecvFails SocketTimeout)\<rparr>"

section \<open>Properties of the address classifier\<close>

lemma split_on_nonempty: "split_on sep s \<noteq> []"
  by (induction s) (auto split: list.splits)

lemma split_on_no_sep: "sep \<notin> set a \<Longrightarrow> split_on sep a = [a]"
  by (induction a) auto

lemma split_on_field: "sep \<notin> set a \<Longrightarrow> split_on sep (a @ sep # r) = a # split_on sep r"
  by (induction a) (auto simp: split_on_nonempty split: list.splits)

lemma is_tailscale_ip_iff:
  "is_tailscale_ip ip =
     (\<exists>a b c d n. split_on CHR ''.'' ip = [a, b, c, d] \<and> py_int a = Some 100
        \<and> py_int b = Some n \<and> 64 \<le> n \<and> n \<le> 127)"
proof (cases "length (split_on CHR ''.'' ip) = 4")
  case False
  then show ?thesis by (auto simp: is_tailscale_ip_def)
next
  case True
  then obtain a b c d where parts: "split_on CHR ''.'' ip = [a, b, c, d]"
    by (auto simp: length_Suc_conv numeral_eq_Suc)
  show ?thesis
    by (auto simp: is_tailscale_ip_def parts split: option.splits)
qed

text \<open>
  C8. The classifier answers True exactly for the strings that split at the dots into
  four fields of which the first reads as 100 and the second as a number from 64 to 127.
  It accepts 100.64.0.1, 100.100.100.100 and 100.127.255.255, and rejects
  100.63.255.255, 100.128.0.0, 10.0.0.1, 100.64.0 and abc.def.1.2.
\<close>

theorem is_tailscale_ip_classifies:
  "(\<forall>ip. is_tailscale_ip ip =
       (\<exists>a b c d n. split_on CHR ''.'' ip = [a, b, c, d] \<and> py_int a = Some 100
          \<and> py_int b = Some n \<and> 64 \<le> n \<and> n \<le> 127))
   \<and> is_tailscale_ip ''100.64.0.1''
   \<and> is_tailscale_ip ''100.100.100.100''
   \<and> is_tailscale_ip ''100.127.255.255''
   \<and> \<not> is_tailscale_ip ''100.63.255.255''
   \<and> \<not> is_tailscale_ip ''100.128.0.0''
   \<and> \<not> is_tailscale_ip ''10.0.0.1''
   \<and> \<not> is_tailscale_ip ''100.64.0''
   \<and> \<not> is_tailscale_ip ''abc.def.1.2''"
proof -
  have general: "\<forall>ip. is_tailscale_ip ip =
       (\<exists>a b c d n. split_on CHR ''.'' ip = [a, b, c, d] \<and> py_int a = Some 100
          \<and> py_int b = Some n \<and> 64 \<le> n \<and> n \<le> 127)"
    using is_tailscale_ip_iff by blast
  have accepted: "is_tailscale_ip ''100.64.0.1'' \<and> is_tailscale_ip ''100.100.100.100''
      \<and> is_tailscale_ip ''100.127.255.255''"
    by code_simp
  have rejected: "\<not> is_tailscale_ip ''100.63.255.255'' \<and> \<not> is_tailscale_ip ''100.128.0.0''
      \<and> \<not> is_tailscale_ip ''10.0.0.1'' \<and> \<not> is_tailscale_ip ''100.64.0''
      \<and> \<not> is_tailscale_ip ''abc.def.1.2''"
    by code_simp
  from general accepted rejected show ?thesis by blast
qed

text \<open>
  C10. A string of exactly four dot-separated fields whose first field reads as 100 and
  whose second reads as a number from 64 to 127 is classified as overlay-trusted,
  whatever the third and fourth fields are: they are never read.
\<close>

theorem is_tailscale_ip_ignores_last_fields:
  assumes "split_on CHR ''.'' ip = [a, b, c, d]"
    and "py_int a = Some 100"
    and "py_int b = Some n"
    and "64 \<le> n" and "n \<le> 127"
  shows "is_tailscale_ip ip"
  using assms by (simp add: is_tailscale_ip_def)

theorem is_tailscale_ip_ignores_last_fields_witness:
  "split_on CHR ''.'' ''100.64.foo.bar'' = [''100'', ''64'', ''foo'', ''bar'']
   \<and> split_on CHR ''.'' ''100.64.999.999'' = [''100'', ''64'', ''999'', ''999'']
   \<and> py_int ''100'' = Some 100 \<and> py_int ''64'' = Some 64
   \<and> is_tailscale_ip ''100.64.foo.bar'' \<and> is_tailscale_ip ''100.64.999.999''"
proof -
  have s1: "split_on CHR ''.'' ''100.64.foo.bar'' = [''100'', ''64'', ''foo'', ''bar'']"
    by simp
  have s2: "split_on CHR ''.'' ''100.64.999.999'' = [''100'', ''64'', ''999'', ''999'']"
    by simp
  have a: "py_int ''100'' = Some 100" by code_simp
  have b: "py_int ''64'' = Some 64" by code_simp
  from is_tailscale_ip_ignores_last_fields [OF s1 a b]
    is_tailscale_ip_ignores_last_fields [OF s2 a b] s1 s2 a b
  show ?thesis by simp
qed

section \<open>Facts about runs\<close>

lemmas comp_defs = ret_def throw_def bind_def try_except_def get_cfg_def sock_socket_def
  sock_settimeout_def sock_connect_def sock_sendall_def sock_recv_def sock_close_def
  decode_def loads_def

lemmas conn_defs = connect_result_def host_arg_error_def

lemmas host_defs = get_host_def host_or_loopback_def note_discovery_def bonjour_def
  discover_via_bonjour_def

lemmas utf8_defs = in_range_def cont_def second3_def second4_def low6_def




lemma get_host_total: "\<exists>r w1. get_host d w = Some (r, w1)"
  by (auto simp: get_host_def split: sum.splits)


lemma get_host_nonempty:
  assumes "get_host d w = Some (Inr h, w1)"
  shows "h \<noteq> []"
  using assms
  by (auto simp: get_host_def host_or_loopback_def split: if_splits sum.splits option.splits)

text \<open>
  C9. Two calls of the resolver in one run return the same host, and the discovery
  function is called at most once: for any discovery function that returns, after the
  first call the second returns the same host whatever the discovery function would
  then answer or raise, and leaves the state, the count of discoveries included, as it
  is.
\<close>

theorem get_host_idempotent:
  "\<exists>h w1. get_host (\<lambda>n. Inr (discover n)) w = Some (Inr h, w1)
     \<and> (\<forall>again. get_host again w1 = Some (Inr h, w1))
     \<and> discoveries w1 \<le> Suc (discoveries w)"
  by (auto simp: get_host_def host_or_loopback_def note_discovery_def split: option.splits)

text \<open>
  When the discovery raises, the exception leaves the resolver with the flag set: a
  second call does not try again and answers the loopback address.
\<close>

lemma get_host_discovery_raises:
  assumes "host (cfg w) = []" and "discovery_attempted (cfg w) = False"
    and "discovered_host (cfg w) = None"
    and "discover (discoveries w) = Inl x"
  shows "\<exists>w1. get_host discover w = Some (Inl x, w1)
           \<and> get_host discover w1 = Some (Inr ''127.0.0.1'', w1)"
  using assms by (simp add: get_host_def host_or_loopback_def)




lemma loopback_not_overlay: "\<not> is_tailscale_ip ''127.0.0.1''"
  by code_simp





text \<open>
  When the AUTH line goes out, a reply line arrives and it decodes, the payload is sent
  exactly when the stripped reply is OK; otherwise the socket is closed and the result
  is \<open>None\<close>.
\<close>

lemma authenticate_checks_reply:
  assumes "sendall_outcome e (sends_done w) = None"
    and "read_auth_response e sock []
           (w\<lparr>calls := calls w @ [SendAll sock (auth_line (token c))],
              sends_done := Suc (sends_done w)\<rparr>) = Some (Inr (Some reply), w3)"
    and "utf8_decode reply = Some s"
  shows "authenticate e sock c state wait_for_response w =
     (if py_strip s = codes ''OK'' then send_payload e sock state wait_for_response w3
      else Some (Inr JNull,
             w3\<lparr>calls := calls w3 @ [Close sock],
                open_socks := removeAll sock (open_socks w3)\<rparr>))"
  using assms by (simp add: authenticate_def comp_defs)

text \<open>
  A reply that arrives in one chunk with its line feed ends the wait after one read.
\<close>

lemma read_auth_response_line:
  assumes "recv_outcome e (recvs_done w) = Data chunk" and "10 \<in> set chunk"
  shows "read_auth_response e sock [] w =
     Some (Inr (Some chunk),
       w\<lparr>calls := calls w @ [Recv sock 64], recvs_done := Suc (recvs_done w)\<rparr>)"
proof -
  have "chunk \<noteq> []" using assms(2) by auto
  then show ?thesis
    using assms
    by (subst read_auth_response.simps, subst read_auth_response.simps)
      (simp add: comp_defs)
qed









text \<open>
  C1 says that in automatic mode, with the socket file absent, no secret and no host
  found, \<open>send_event\<close> returns \<open>None\<close> and raises nothing. In the Nook script the
  variable \<open>result\<close> is bound only when the socket file exists, so in this very
  situation the final \<open>return result\<close> raises \<open>UnboundLocalError\<close>, for every event
  record and both values of \<open>wait_for_response\<close>.
\<close>

theorem send_event_raises_unbound_local:
  "mode default_config = ''auto'' \<and> token default_config = [] \<and> host default_config = []
   \<and> path_exists nobody_home (socket_path default_config) = False
   \<and> bonjour nobody_home 0 = Inr (None, None)
   \<and> (\<forall>state wait_for_response.
         send_event nobody_home state wait_for_response (start default_config)
         = Some (Inl UnboundLocalError,
             (start default_config)
               \<lparr>cfg := default_config\<lparr>discovery_attempted := True\<rparr>, discoveries := 1\<rparr>))"
  by (simp add: send_event_def remote_fallback_def read_local_def host_defs comp_defs
      nobody_home_def start_def default_config_def loopback_not_overlay)

text \<open>The Island script binds \<open>result\<close> first and returns \<open>None\<close> in the same situation.\<close>

lemma send_event_island_no_result:
  "send_event_island nobody_home state wait_for_response (start default_config)
   = Some (Inr JNull,
       (start default_config)
         \<lparr>calls := [Socket 0 AF_UNIX, Connect 0 (UnixAddr ''/tmp/claude-nook.sock'')],
          open_socks := [0], next_sock := 1\<rparr>)"
  by (simp add: send_event_island_def send_via_socket_def comp_defs conn_defs nobody_home_def
      start_def default_config_def)

text \<open>
  C4 says that after an AUTH line every reply other than OK ends the attempt with no
  result. A reply line that is not UTF-8, here the bytes FF 0A, makes
  \<open>auth_response.decode()\<close> raise \<open>UnicodeDecodeError\<close>, which none of the
  \<open>except\<close> clauses takes: the exception leaves \<open>send_via_tcp\<close>, in the Nook
  script (after a greeting read that timed out) and in the Island script alike.
\<close>

theorem auth_reply_not_utf8_raises:
  "send_via_tcp (talking_peer [RecvFails SocketTimeout, Data [0xFF, 0x0A]]) (JDict []) True
     (start (default_config\<lparr>host := ''10.0.0.1'', token := ''s3cret''\<rparr>))
   = Some (Inl UnicodeDecodeError,
       (start (default_config\<lparr>host := ''10.0.0.1'', token := ''s3cret''\<rparr>))
         \<lparr>calls := [Socket 0 AF_INET, Connect 0 (InetAddr ''10.0.0.1'' 4851), Recv 0 64,
                    SendAll 0 (auth_line ''s3cret''), Recv 0 64],
          open_socks := [0], next_sock := 1, sends_done := 1, recvs_done := 2\<rparr>)
   \<and> send_via_tcp_island (talking_peer [Data [0xFF, 0x0A]]) (JDict []) True
     (start (default_config\<lparr>host := ''10.0.0.1'', token := ''s3cret''\<rparr>))
   = Some (Inl UnicodeDecodeError,
       (start (default_config\<lparr>host := ''10.0.0.1'', token := ''s3cret''\<rparr>))
         \<lparr>calls := [Socket 0 AF_INET, Connect 0 (InetAddr ''10.0.0.1'' 4851),
                    SendAll 0 (auth_line ''s3cret''), Recv 0 64],
          open_socks := [0], next_sock := 1, sends_done := 1, recvs_done := 1\<rparr>)"
  by (simp add: send_via_tcp_def send_via_tcp_island_def authenticate_def
      read_auth_response.simps get_host_def comp_defs conn_defs utf8_defs talking_peer_def
      silent_peer_def start_def default_config_def)

text \<open>
  C6 says that the socket of an attempt is closed on every way out of the transport.
  \<open>close\<close> is called on the ways out that raise nothing; the \<open>except\<close> clauses
  return without it. Below, a read that times out (local transport, and remote
  transport during authentication) and a refused connection each end with the socket
  still among the open ones and no \<open>Close\<close> among the calls.
\<close>

theorem timeout_leaves_socket_open:
  "send_via_socket silent_peer (JDict []) True (start default_config)
   = Some (Inr JNull,
       (start default_config)
         \<lparr>calls := [Socket 0 AF_UNIX, Connect 0 (UnixAddr ''/tmp/claude-nook.sock''),
                    SendAll 0 [0x7B, 0x7D], Recv 0 4096],
          open_socks := [0], next_sock := 1, sends_done := 1, recvs_done := 1\<rparr>)
   \<and> send_via_tcp silent_peer (JDict []) True
     (start (default_config\<lparr>host := ''10.0.0.1'', token := ''s3cret''\<rparr>))
   = Some (Inr JNull,
       (start (default_config\<lparr>host := ''10.0.0.1'', token := ''s3cret''\<rparr>))
         \<lparr>calls := [Socket 0 AF_INET, Connect 0 (InetAddr ''10.0.0.1'' 4851), Recv 0 64,
                    SendAll 0 (auth_line ''s3cret''), Recv 0 64],
          open_socks := [0], next_sock := 1, sends_done := 1, recvs_done := 2\<rparr>)
   \<and> send_via_tcp nobody_home (JDict []) True
     (start (default_config\<lparr>host := ''10.0.0.1'', token := ''s3cret''\<rparr>))
   = Some (Inr JNull,
       (start (default_config\<lparr>host := ''10.0.0.1'', token := ''s3cret''\<rparr>))
         \<lparr>calls := [Socket 0 AF_INET, Connect 0 (InetAddr ''10.0.0.1'' 4851)],
          open_socks := [0], next_sock := 1\<rparr>)"
  by (simp add: send_via_socket_def send_via_tcp_def authenticate_def send_payload_def
      read_auth_response.simps get_host_def comp_defs conn_defs silent_peer_def nobody_home_def
      start_def default_config_def)

text \<open>
  C7 says that a reply that is not a valid JSON document, bytes that are not UTF-8
  included, is discarded and never raised. For the reply FF, \<open>response.decode()\<close>
  raises \<open>UnicodeDecodeError\<close>, which is not a \<open>JSONDecodeError\<close> and not an
  \<open>OSError\<close>: it leaves both transports.
\<close>

theorem reply_not_utf8_raises:
  "send_via_socket (talking_peer [Data [0xFF]]) (JDict []) True (start default_config)
   = Some (Inl UnicodeDecodeError,
       (start default_config)
         \<lparr>calls := [Socket 0 AF_UNIX, Connect 0 (UnixAddr ''/tmp/claude-nook.sock''),
                    SendAll 0 [0x7B, 0x7D], Recv 0 4096, Close 0],
          open_socks := [], next_sock := 1, sends_done := 1, recvs_done := 1\<rparr>)
   \<and> send_via_tcp (talking_peer [Data [0x4F, 0x4B, 0x0A], Data [0xFF]]) (JDict []) True
     (start (default_config\<lparr>host := ''100.64.0.1''\<rparr>))
   = Some (Inl UnicodeDecodeError,
       (start (default_config\<lparr>host := ''100.64.0.1''\<rparr>))
         \<lparr>calls := [Socket 0 AF_INET, Connect 0 (InetAddr ''100.64.0.1'' 4851), Recv 0 64,
                    SendAll 0 [0x7B, 0x7D], Recv 0 4096, Close 0],
          open_socks := [], next_sock := 1, sends_done := 1, recvs_done := 2\<rparr>)"
  by (simp add: send_via_socket_def send_via_tcp_def send_payload_def get_host_def comp_defs
      conn_defs utf8_defs py_strip_def py_isspace_def codes_def talking_peer_def silent_peer_def
      start_def default_config_def)

section \<open>Further facts about the transports\<close>

text \<open>
  The part of C7 that the code keeps: when the connection is made and the payload goes
  out, a reply that decodes and does not parse is discarded, and \<open>None\<close> is returned.
  A reply nested too deep is not: \<open>RecursionError\<close> leaves the transport.
\<close>

lemma reply_not_json_discarded:
  assumes "socket_outcome e (next_sock w) = None"
    and "0 \<le> timeout (cfg w)" and "timeout (cfg w) \<le> timeout_max e"
    and "connect_result e (UnixAddr (socket_path (cfg w))) = None"
    and "sendall_outcome e (sends_done w) = None"
    and "recv_outcome e (recvs_done w) = Data reply"
    and "utf8_decode reply = Some s"
    and "json_loads e s = NotJSON"
  shows "\<exists>w'. send_via_socket e state True w = Some (Inr JNull, w')"
  using assms
  by (cases "reply = []") (simp_all add: send_via_socket_def send_payload_def comp_defs)

lemma reply_too_deep_raises:
  assumes "socket_outcome e (next_sock w) = None"
    and "0 \<le> timeout (cfg w)" and "timeout (cfg w) \<le> timeout_max e"
    and "connect_result e (UnixAddr (socket_path (cfg w))) = None"
    and "sendall_outcome e (sends_done w) = None"
    and "recv_outcome e (recvs_done w) = Data reply" and "reply \<noteq> []"
    and "utf8_decode reply = Some s"
    and "json_loads e s = TooDeep"
  shows "\<exists>w'. send_via_socket e state True w = Some (Inl RecursionError, w')"
  using assms by (simp add: send_via_socket_def send_payload_def comp_defs)

text \<open>
  A timeout that \<open>settimeout\<close> refuses and a port outside 0..65535 on a host that
  resolves make the remote transport raise, with the socket left open.
\<close>

lemma negative_timeout_raises:
  "send_via_tcp silent_peer (JDict []) False
     (start (default_config\<lparr>host := ''10.0.0.1'', timeout := - 1\<rparr>))
   = Some (Inl ValueError,
       (start (default_config\<lparr>host := ''10.0.0.1'', timeout := - 1\<rparr>))
         \<lparr>calls := [Socket 0 AF_INET], open_socks := [0], next_sock := 1\<rparr>)"
  by (simp add: send_via_tcp_def get_host_def comp_defs silent_peer_def start_def
      default_config_def)

lemma port_out_of_range_raises:
  "send_via_tcp silent_peer (JDict []) False
     (start (default_config\<lparr>host := ''10.0.0.1'', port := 70000\<rparr>))
   = Some (Inl OverflowError,
       (start (default_config\<lparr>host := ''10.0.0.1'', port := 70000\<rparr>))
         \<lparr>calls := [Socket 0 AF_INET, Connect 0 (InetAddr ''10.0.0.1'' 70000)],
          open_socks := [0], next_sock := 1\<rparr>)"
  by (simp add: send_via_tcp_def get_host_def comp_defs conn_defs silent_peer_def start_def
      default_config_def)

text \<open>
  The failure of C1 does not depend on the sample surroundings: in automatic mode with
  the socket file absent, no host, no token, and a discovery that finds nothing, every
  run of the Nook \<open>send_event\<close> ends in \<open>UnboundLocalError\<close>.
\<close>

lemma send_event_unbound_result:
  assumes "mode (cfg w) \<noteq> ''socket''" and "mode (cfg w) \<noteq> ''tcp''"
    and "path_exists e (socket_path (cfg w)) = False"
    and "token (cfg w) = []" and "host (cfg w) = []"
    and "discovered_host (cfg w) = None"
    and "bonjour e (discoveries w) = Inr (None, None)"
  shows "\<exists>w'. send_event e state wait_for_response w = Some (Inl UnboundLocalError, w')"
  using assms
  by (simp add: send_event_def remote_fallback_def read_local_def get_host_def
      host_or_loopback_def note_discovery_def comp_defs loopback_not_overlay)

text \<open>
  The wait returns only through a line feed, a closed connection or a failed read. A
  peer that keeps sending chunks without a line feed keeps the client in the loop for
  ever: the wait has no value.
\<close>

lemma read_auth_response_needs_line_feed:
  assumes "read_auth_response e sock buf w = Some rw"
    and "\<And>n. \<exists>chunk. recv_outcome e n = Data chunk \<and> chunk \<noteq> [] \<and> 10 \<notin> set chunk"
  shows "10 \<in> set buf"
proof -
  have "e = e \<longrightarrow> 10 \<in> set buf"
  proof (rule read_auth_response.raw_induct
      [where P = "\<lambda>e' sock buf w rw. e' = e \<longrightarrow> 10 \<in> set buf", OF _ assms(1)])
    fix read e' sock buf w rw
    assume IH: "\<And>e' sock buf w rw. read e' sock buf w = Some rw \<Longrightarrow> e' = e \<longrightarrow> 10 \<in> set buf"
      and step: "(if 10 \<in> set buf then Some (Inr (Some buf), w)
        else case sock_recv e' sock 64 w of
             None \<Rightarrow> None
           | Some (Inl x, w1) \<Rightarrow> Some (Inl x, w1)
           | Some (Inr chunk, w1) \<Rightarrow>
               if chunk = [] then bind (sock_close sock) (\<lambda>_. ret None) w1
               else read e' sock (buf @ chunk) w1) = Some rw"
    show "e' = e \<longrightarrow> 10 \<in> set buf"
    proof
      assume e': "e' = e"
      show "10 \<in> set buf"
      proof (rule ccontr)
        assume no: "10 \<notin> set buf"
        obtain chunk where c: "recv_outcome e (recvs_done w) = Data chunk" "chunk \<noteq> []"
          "10 \<notin> set chunk"
          using assms(2) by blast
        with step no e'
        have "read e sock (buf @ chunk)
            (w\<lparr>calls := calls w @ [Recv sock 64], recvs_done := Suc (recvs_done w)\<rparr>) = Some rw"
          by (simp add: comp_defs)
        from IH [OF this] no c(3) show False by simp
      qed
    qed
  qed
  then show ?thesis by simp
qed

lemma babbling_peer_blocks_client:
  assumes "\<And>n. \<exists>chunk. recv_outcome e n = Data chunk \<and> chunk \<noteq> [] \<and> 10 \<notin> set chunk"
  shows "read_auth_response e sock [] w = None"
proof (cases "read_auth_response e sock [] w")
  case None
  then show ?thesis .
next
  case (Some rw)
  from read_auth_response_needs_line_feed [OF Some assms] show ?thesis by simp
qed

section \<open>The permission round trip\<close>

text \<open>
  After \<open>send_event\<close> has returned, \<open>main\<close> ends as \<open>permission_outcome\<close> says,
  in both scripts; when \<open>send_event\<close> raises, so does \<open>main\<close>.
\<close>

lemma main_after_send_event:
  assumes "send_event e state True w = Some (Inr response, w')"
  shows "main_permission_request e state w
     = finish (permission_outcome ''Denied by user via Claude Nook'' response) w'"
  using assms by (simp add: main_permission_request_def bind_def)

lemma main_island_after_send_event:
  assumes "send_event_island e state True w = Some (Inr response, w')"
  shows "main_permission_request_island e state w
     = finish (permission_outcome ''Denied by user via ClaudeIsland'' response) w'"
  using assms by (simp add: main_permission_request_island_def bind_def)

text \<open>
  The record with decision allow prints the allow decision, which carries a behavior
  and nothing else; the record with decision deny and reason no prints the deny
  decision with message no. The documents are written out in full.
\<close>

lemma permission_outcome_allow:
  "permission_outcome d (JDict [(codes ''decision'', JStr (codes ''allow''))])
     = Inr \<lparr>printed = Some (JDict [(codes ''hookSpecificOutput'',
               JDict [(codes ''hookEventName'', JStr (codes ''PermissionRequest'')),
                      (codes ''decision'',
                       JDict [(codes ''behavior'', JStr (codes ''allow''))])])]),
            exit_status = 0\<rparr>"
  by (simp add: permission_outcome_def hook_output_def dict_get_def codes_def)

lemma permission_outcome_deny:
  "permission_outcome d (JDict [(codes ''decision'', JStr (codes ''deny'')),
                                (codes ''reason'', JStr (codes ''no''))])
     = Inr \<lparr>printed = Some (JDict [(codes ''hookSpecificOutput'',
               JDict [(codes ''hookEventName'', JStr (codes ''PermissionRequest'')),
                      (codes ''decision'',
                       JDict [(codes ''behavior'', JStr (codes ''deny'')),
                              (codes ''message'', JStr (codes ''no''))])])]),
            exit_status = 0\<rparr>"
  by (simp add: permission_outcome_def hook_output_def dict_get_def codes_def)

lemma permission_outcome_ask:
  "permission_outcome d JNull = Inr \<lparr>printed = None, exit_status = 0\<rparr>"
  "permission_outcome d (JDict []) = Inr \<lparr>printed = None, exit_status = 0\<rparr>"
  "permission_outcome d (JDict [(codes ''decision'', JStr (codes ''ask''))])
     = Inr \<lparr>printed = None, exit_status = 0\<rparr>"
  by (simp_all add: permission_outcome_def dict_get_def codes_def)

text \<open>A reply that parses to something true that is not a dictionary makes \<open>main\<close> raise.\<close>

lemma permission_outcome_not_a_dict:
  "permission_outcome d (JList [JInt 1]) = Inl AttributeError"
  by (simp add: permission_outcome_def)

text \<open>
  C5 says that for every permission request an allow reply gives the allow outcome, a
  deny reply with reason no gives the deny outcome with message no, and an empty or
  absent reply gives the same outcome as an explicit ask: nothing printed, exit status
  0. The first two hold, as does the third for a reply that \<open>send_event\<close> returns.
  But in the Nook script the absent reply of the plainest kind, the default
  configuration with nobody listening, never reaches that point: \<open>send_event\<close>
  raises \<open>UnboundLocalError\<close> (the failure of C1), and \<open>main\<close> ends with that
  exception instead of the outcome of an explicit ask, for every event record. The
  Island script, in the same surroundings, ends as for ask.
\<close>

theorem absent_reply_is_not_ask:
  "(\<forall>state. main_permission_request nobody_home state (start default_config)
       = Some (Inl UnboundLocalError,
           (start default_config)
             \<lparr>cfg := default_config\<lparr>discovery_attempted := True\<rparr>, discoveries := 1\<rparr>))
   \<and> finish (permission_outcome ''Denied by user via Claude Nook''
               (JDict [(codes ''decision'', JStr (codes ''ask''))]))
         ((start default_config)
            \<lparr>cfg := default_config\<lparr>discovery_attempted := True\<rparr>, discoveries := 1\<rparr>)
       = Some (Inr \<lparr>printed = None, exit_status = 0\<rparr>,
           (start default_config)
             \<lparr>cfg := default_config\<lparr>discovery_attempted := True\<rparr>, discoveries := 1\<rparr>)
   \<and> (\<forall>state. main_permission_request_island nobody_home state (start default_config)
       = Some (Inr \<lparr>printed = None, exit_status = 0\<rparr>,
           (start default_config)
             \<lparr>calls := [Socket 0 AF_UNIX, Connect 0 (UnixAddr ''/tmp/claude-nook.sock'')],
              open_socks := [0], next_sock := 1\<rparr>))"
proof -
  have nook: "\<forall>state. main_permission_request nobody_home state (start default_config)
       = Some (Inl UnboundLocalError,
           (start default_config)
             \<lparr>cfg := default_config\<lparr>discovery_attempted := True\<rparr>, discoveries := 1\<rparr>)"
    by (simp add: main_permission_request_def send_event_def remote_fallback_def
        read_local_def host_defs comp_defs nobody_home_def start_def default_config_def
        loopback_not_overlay)
  have ask: "finish (permission_outcome ''Denied by user via Claude Nook''
               (JDict [(codes ''decision'', JStr (codes ''ask''))]))
         ((start default_config)
            \<lparr>cfg := default_config\<lparr>discovery_attempted := True\<rparr>, discoveries := 1\<rparr>)
       = Some (Inr \<lparr>printed = None, exit_status = 0\<rparr>,
           (start default_config)
             \<lparr>cfg := default_config\<lparr>discovery_attempted := True\<rparr>, discoveries := 1\<rparr>)"
    by (simp add: permission_outcome_ask finish_def ret_def)
  have island: "\<forall>state. main_permission_request_island nobody_home state
         (start default_config)
       = Some (Inr \<lparr>printed = None, exit_status = 0\<rparr>,
           (start default_config)
             \<lparr>calls := [Socket 0 AF_UNIX, Connect 0 (UnixAddr ''/tmp/claude-nook.sock'')],
              open_socks := [0], next_sock := 1\<rparr>)"
    by (simp add: main_permission_request_island_def send_event_island_def
        send_via_socket_def comp_defs conn_defs finish_def permission_outcome_ask
        nobody_home_def start_def default_config_def)
  from nook ask island show ?thesis by blast
qed


end
